theory Spec2Isabelle
  imports Complex_Main "HOL-Library.AList"
begin

section \<open>Python values and the operations the bot applies to them\<close>

text \<open>
  The bot (\<^verbatim>\<open>bot.py\<close>) keeps its profiles in \<^verbatim>\<open>user_data.json\<close> and reads the weather
  provider's JSON answer, so the values it handles are what \<^verbatim>\<open>json.load\<close> returns:
  \<^verbatim>\<open>None\<close>, booleans, numbers, strings, lists and dictionaries with string keys. A
  dictionary is an association list in insertion order; \<open>map_of\<close> is the lookup and
  \<open>AList.update\<close> the assignment \<^verbatim>\<open>d[k] = v\<close> (an existing key keeps its position, a
  new key goes to the end). Strings are lists of 8-bit characters: the model covers
  ASCII text, a character outside ASCII is the bytes of its UTF-8 encoding.
\<close>

datatype json =
    JNull
  | JBool bool
  | JNum rat
  | JStr string
  | JArr "json list"
  | JObj "(string \<times> json) list"

text \<open>The exceptions the operations below can raise.\<close>

datatype py_error = KeyError | TypeError | AttributeError | IndexError | OtherError

text \<open>\<^verbatim>\<open>isinstance(v, dict)\<close>.\<close>

fun is_dict :: "json \<Rightarrow> bool" where
  "is_dict (JObj kvs) = True"
| "is_dict v = False"

text \<open>Truth value of a Python object, as \<^verbatim>\<open>not data\<close> tests it.\<close>

fun truthy :: "json \<Rightarrow> bool" where
  "truthy JNull = False"
| "truthy (JBool b) = b"
| "truthy (JNum n) = (n \<noteq> 0)"
| "truthy (JStr s) = (s \<noteq> [])"
| "truthy (JArr xs) = (xs \<noteq> [])"
| "truthy (JObj kvs) = (kvs \<noteq> [])"

text \<open>\<^verbatim>\<open>a in b\<close> for two strings: \<open>a\<close> occurs in \<open>b\<close> as a contiguous piece.\<close>

fun is_substring :: "string \<Rightarrow> string \<Rightarrow> bool" where
  "is_substring a [] = (a = [])"
| "is_substring a (c # cs) = (take (length a) (c # cs) = a \<or> is_substring a cs)"

text \<open>
  \<^verbatim>\<open>s in container\<close> for a string \<open>s\<close>: membership in a list (a string equals only a
  string), key membership in a dictionary, substring test in a string; any other
  container raises TypeError.
\<close>

fun py_contains :: "json \<Rightarrow> string \<Rightarrow> py_error + bool" where
  "py_contains (JArr xs) s = Inr (JStr s \<in> set xs)"
| "py_contains (JObj kvs) s = Inr (map_of kvs s \<noteq> None)"
| "py_contains (JStr t) s = Inr (is_substring s t)"
| "py_contains v s = Inl TypeError"

text \<open>\<^verbatim>\<open>container[key]\<close> for a string key.\<close>

fun py_getitem :: "json \<Rightarrow> string \<Rightarrow> py_error + json" where
  "py_getitem (JObj kvs) k = (case map_of kvs k of None \<Rightarrow> Inl KeyError | Some v \<Rightarrow> Inr v)"
| "py_getitem v k = Inl TypeError"

text \<open>\<^verbatim>\<open>container[key] = value\<close> for a string key.\<close>

fun py_setitem :: "json \<Rightarrow> string \<Rightarrow> json \<Rightarrow> py_error + json" where
  "py_setitem (JObj kvs) k v = Inr (JObj (AList.update k v kvs))"
| "py_setitem c k v = Inl TypeError"

text \<open>\<^verbatim>\<open>container.append(value)\<close>: only a list has the method.\<close>

fun py_append :: "json \<Rightarrow> json \<Rightarrow> py_error + json" where
  "py_append (JArr xs) v = Inr (JArr (xs @ [v]))"
| "py_append c v = Inl AttributeError"

text \<open>\<^verbatim>\<open>container.get(key, default)\<close>: only a dictionary has the method.\<close>

fun py_get :: "json \<Rightarrow> string \<Rightarrow> json \<Rightarrow> py_error + json" where
  "py_get (JObj kvs) k d = Inr (case map_of kvs k of None \<Rightarrow> d | Some v \<Rightarrow> v)"
| "py_get c k d = Inl AttributeError"

text \<open>
  \<^verbatim>\<open>container[0]\<close>: the first element of a list, the first character of a string;
  a dictionary loaded from JSON has no key \<open>0\<close>.
\<close>

fun py_first :: "json \<Rightarrow> py_error + json" where
  "py_first (JArr []) = Inl IndexError"
| "py_first (JArr (x # xs)) = Inr x"
| "py_first (JStr []) = Inl IndexError"
| "py_first (JStr (c # cs)) = Inr (JStr [c])"
| "py_first (JObj kvs) = Inl KeyError"
| "py_first v = Inl TypeError"

subsection \<open>String methods\<close>

text \<open>The ASCII characters \<^verbatim>\<open>str.strip()\<close> removes.\<close>

definition is_space :: "char \<Rightarrow> bool" where
  "is_space c =
     (c \<in> set [CHR 0x09, CHR 0x0A, CHR 0x0B, CHR 0x0C, CHR 0x0D,
               CHR 0x1C, CHR 0x1D, CHR 0x1E, CHR 0x1F, CHR 0x20])"

definition strip :: "string \<Rightarrow> string" where
  "strip s = rev (dropWhile is_space (rev (dropWhile is_space s)))"

text \<open>The letters whose case \<^verbatim>\<open>str.capitalize()\<close> changes, paired with their other case.\<close>

definition lower_letters :: string where
  "lower_letters = ''abcdefghijklmnopqrstuvwxyz''"

definition upper_letters :: string where
  "upper_letters = ''ABCDEFGHIJKLMNOPQRSTUVWXYZ''"

definition to_upper :: "char \<Rightarrow> char" where
  "to_upper c = (case map_of (zip lower_letters upper_letters) c of None \<Rightarrow> c | Some u \<Rightarrow> u)"

definition to_lower :: "char \<Rightarrow> char" where
  "to_lower c = (case map_of (zip upper_letters lower_letters) c of None \<Rightarrow> c | Some l \<Rightarrow> l)"

text \<open>\<^verbatim>\<open>str.capitalize()\<close>: the first character in upper case, the rest in lower case.\<close>

fun capitalize :: "string \<Rightarrow> string" where
  "capitalize [] = []"
| "capitalize (c # cs) = to_upper c # map to_lower cs"

text \<open>\<^verbatim>\<open>description.capitalize()\<close> on a value: only a string has the method.\<close>

fun py_capitalize :: "json \<Rightarrow> py_error + string" where
  "py_capitalize (JStr s) = Inr (capitalize s)"
| "py_capitalize v = Inl AttributeError"

text \<open>\<^verbatim>\<open>sep.join(parts)\<close>.\<close>

fun join :: "string \<Rightarrow> string list \<Rightarrow> string" where
  "join sep [] = []"
| "join sep [x] = x"
| "join sep (x # y # ys) = x @ sep @ join sep (y # ys)"

text \<open>\<^verbatim>\<open>str(n)\<close> for an integer: its decimal digits, with a sign when negative.\<close>

definition digit_char :: "nat \<Rightarrow> char" where
  "digit_char d = ''0123456789'' ! d"

function digits_of_nat :: "nat \<Rightarrow> string" where
  "digits_of_nat n =
     (if n < 10 then [digit_char n] else digits_of_nat (n div 10) @ [digit_char (n mod 10)])"
  by pat_completeness auto
termination
  by (relation "measure (\<lambda>n. n)") auto

declare digits_of_nat.simps [simp del]

definition str_of_int :: "int \<Rightarrow> string" where
  "str_of_int i = (if i < 0 then CHR ''-'' # digits_of_nat (nat (- i)) else digits_of_nat (nat i))"

section \<open>The bot's state and its collaborators\<close>

text \<open>
  A text message and a button press, each with the chat it comes from
  (\<^verbatim>\<open>message.chat.id\<close>, \<^verbatim>\<open>message.text\<close>; \<^verbatim>\<open>call.id\<close>, \<^verbatim>\<open>call.message.chat.id\<close>,
  \<^verbatim>\<open>call.data\<close>).
\<close>

record message =
  chat_id :: int
  msg_text :: string

record callback_query =
  call_id :: string
  call_chat_id :: int
  call_data :: string

text \<open>
  What \<^verbatim>\<open>bot.send_message\<close> sends: the chat, the text, the rows of buttons of the
  \<^verbatim>\<open>reply_markup\<close> (label and callback token) and the \<^verbatim>\<open>parse_mode\<close>.
\<close>

record out_message =
  to_chat :: int
  body :: string
  buttons :: "(string \<times> string) list list"
  parse_mode :: "string option"

text \<open>The accesses \<^verbatim>\<open>load_user_data\<close> and \<^verbatim>\<open>save_user_data\<close> make to the file.\<close>

datatype file_op = Exists | Write json | Read

text \<open>
  The state the handlers act on: the dictionary \<^verbatim>\<open>user_states\<close>, the content of
  \<^verbatim>\<open>user_data.json\<close> (\<open>None\<close> while the file does not exist), the log of the accesses to
  that file, the strings handed to the geocoder, the messages sent and the callback
  queries answered, each in order.
\<close>

record world =
  user_states :: "int \<rightharpoonup> string"
  user_data_file :: "json option"
  file_ops :: "file_op list"
  geocoder_queries :: "string list"
  sent :: "out_message list"
  answered :: "string list"

text \<open>
  The answer of \<^verbatim>\<open>geolocator.geocode\<close>: a place with its canonical address and its
  coordinates, no place, or an exception. The answer of the weather provider to
  \<^verbatim>\<open>requests.get\<close>, \<^verbatim>\<open>raise_for_status\<close> and \<^verbatim>\<open>response.json()\<close>: a JSON body, a
  \<^verbatim>\<open>requests.RequestException\<close>, or another exception.
\<close>

datatype 'f geocode_result = Located string 'f 'f | NoMatch | GeocoderRaised

datatype http_result = Body json | RequestException | OtherException

text \<open>
  The collaborators and the built-ins of Python that work on floating-point numbers,
  as parameters: the geocoder, \<^verbatim>\<open>round(x, 2)\<close>, the weather provider, and the text an
  f-string gives a value that is not a string. \<open>'f\<close> is the type of a coordinate.
\<close>

record 'f env =
  geocode :: "string \<Rightarrow> 'f geocode_result"
  round2 :: "'f \<Rightarrow> 'f"
  forecast :: "'f \<Rightarrow> 'f \<Rightarrow> http_result"
  format_other :: "json \<Rightarrow> string"

text \<open>\<^verbatim>\<open>f'{v}'\<close>: a string is inserted as it is.\<close>

definition format_value :: "'f env \<Rightarrow> json \<Rightarrow> string" where
  "format_value env v = (case v of JStr s \<Rightarrow> s | _ \<Rightarrow> format_other env v)"

definition send_message ::
  "int \<Rightarrow> string \<Rightarrow> (string \<times> string) list list \<Rightarrow> string option \<Rightarrow> world \<Rightarrow> world" where
  "send_message c t rows pm w =
     w\<lparr>sent := sent w @ [\<lparr>to_chat = c, body = t, buttons = rows, parse_mode = pm\<rparr>]\<rparr>"

definition answer_callback_query :: "string \<Rightarrow> world \<Rightarrow> world" where
  "answer_callback_query cid w = w\<lparr>answered := answered w @ [cid]\<rparr>"

subsection \<open>Literals of the source\<close>

definition apostrophe :: string where
  "apostrophe = [CHR 0x27]"

definition newline :: string where
  "newline = [CHR 0x0A]"

text \<open>The characters outside ASCII, as the bytes the source file has for them.\<close>

definition degree_sign :: string where
  "degree_sign = [CHR 0xC2, CHR 0xAC, CHR 0xE2, CHR 0x88, CHR 0x9E]"

definition smile :: string where
  "smile = [CHR 0xEF, CHR 0xA3, CHR 0xBF, CHR 0xC3, CHR 0xBC, CHR 0xC3, CHR 0xB2, CHR 0xC3, CHR 0xA4]"

definition pin :: string where
  "pin = [CHR 0xEF, CHR 0xA3, CHR 0xBF, CHR 0xC3, CHR 0xBC, CHR 0xC3, CHR 0xAC, CHR 0xC3, CHR 0xA7]"

definition waiting_for_weather_location :: string where
  "waiting_for_weather_location = ''waiting_for_weather_location''"

definition waiting_for_save_location :: string where
  "waiting_for_save_location = ''waiting_for_save_location''"

section \<open>Location Resolver: \<^verbatim>\<open>location_handler\<close>\<close>

text \<open>
  The argument is a string or a message (\<^verbatim>\<open>isinstance(message, str)\<close>). No match and
  an exception of the geocoder both return \<^verbatim>\<open>None\<close>; a match returns the two
  coordinates, each through \<^verbatim>\<open>round(x, 2)\<close>.
\<close>

definition location_text :: "string + message \<Rightarrow> string" where
  "location_text message = (case message of Inl s \<Rightarrow> s | Inr m \<Rightarrow> msg_text m)"

definition location_handler ::
  "'f env \<Rightarrow> string + message \<Rightarrow> world \<Rightarrow> ('f \<times> 'f) option \<times> world" where
  "location_handler env message w =
     (let location = location_text message;
          w' = w\<lparr>geocoder_queries := geocoder_queries w @ [location]\<rparr>
      in case geocode env location of
           NoMatch \<Rightarrow> (None, w')
         | Located address latitude longitude \<Rightarrow>
             (Some (round2 env latitude, round2 env longitude), w')
         | GeocoderRaised \<Rightarrow> (None, w'))"

section \<open>Weather Fetcher: \<^verbatim>\<open>get_weather\<close> and \<^verbatim>\<open>fetch_weather\<close>\<close>

text \<open>\<^verbatim>\<open>get_weather\<close> catches \<^verbatim>\<open>requests.RequestException\<close> only and returns \<^verbatim>\<open>None\<close> for it.\<close>

definition get_weather :: "'f env \<Rightarrow> 'f \<Rightarrow> 'f \<Rightarrow> py_error + json" where
  "get_weather env latitude longitude =
     (case forecast env latitude longitude of
        Body j \<Rightarrow> Inr j
      | RequestException \<Rightarrow> Inr JNull
      | OtherException \<Rightarrow> Inl OtherError)"

definition plain :: "int \<Rightarrow> string \<Rightarrow> out_message" where
  "plain c t = \<lparr>to_chat = c, body = t, buttons = [], parse_mode = None\<rparr>"

definition weather_message :: "string \<Rightarrow> string \<Rightarrow> string" where
  "weather_message description temp =
     ''*Weather:* '' @ description @ newline @ ''*Temperature:* '' @ temp @ degree_sign @ ''C''"

text \<open>
  Lines 111 to 127 of \<^verbatim>\<open>fetch_weather\<close>, on the provider's answer: the messages to
  send, or the exception raised before any is sent.
\<close>

definition read_forecast :: "'f env \<Rightarrow> int \<Rightarrow> json \<Rightarrow> py_error + out_message list" where
  "read_forecast env c weather =
     (case py_get weather ''list'' (JArr []) of
        Inl e \<Rightarrow> Inl e
      | Inr data \<Rightarrow>
          if \<not> truthy data then Inr [plain c ''No weather data available.'']
          else
            (case py_first data of
               Inl e \<Rightarrow> Inl e
             | Inr entry \<Rightarrow>
                 (case py_get entry ''weather'' (JArr []) of
                    Inl e \<Rightarrow> Inl e
                  | Inr info \<Rightarrow>
                      if \<not> truthy info then Inr [plain c ''No weather description available.'']
                      else
                        (case py_first info of
                           Inl e \<Rightarrow> Inl e
                         | Inr first_info \<Rightarrow>
                             (case py_get first_info ''description'' (JStr ''Unknown'') of
                                Inl e \<Rightarrow> Inl e
                              | Inr description \<Rightarrow>
                                  (case py_get entry ''main'' (JObj []) of
                                     Inl e \<Rightarrow> Inl e
                                   | Inr main \<Rightarrow>
                                       (case py_get main ''temp'' (JStr ''N/A'') of
                                          Inl e \<Rightarrow> Inl e
                                        | Inr temp \<Rightarrow>
                                            (case py_capitalize description of
                                               Inl e \<Rightarrow> Inl e
                                             | Inr d \<Rightarrow>
                                                 Inr [plain c (''Here'' @ apostrophe @ ''s the weather!''),
                                                      \<lparr>to_chat = c,
                                                       body = weather_message d (format_value env temp),
                                                       buttons = [],
                                                       parse_mode = Some ''Markdown''\<rparr>]))))))))"

text \<open>Lines 105 to 127: the call of the provider, then the reading of its answer.\<close>

definition weather_report :: "'f env \<Rightarrow> int \<Rightarrow> 'f \<Rightarrow> 'f \<Rightarrow> py_error + out_message list" where
  "weather_report env c latitude longitude =
     (case get_weather env latitude longitude of
        Inl e \<Rightarrow> Inl e
      | Inr weather \<Rightarrow>
          if weather = JNull
          then Inr [plain c ''Sorry, I could not retrieve the weather information.'']
          else read_forecast env c weather)"

text \<open>
  \<^verbatim>\<open>fetch_weather\<close>: nothing is sent when the location is not resolved; an exception
  in the body is answered by the generic message.
\<close>

definition fetch_weather :: "'f env \<Rightarrow> message \<Rightarrow> world \<Rightarrow> world" where
  "fetch_weather env message w =
     (let (location_result, w1) = location_handler env (Inr message) w
      in case location_result of
           None \<Rightarrow> w1
         | Some (latitude, longitude) \<Rightarrow>
             (case weather_report env (chat_id message) latitude longitude of
                Inl e \<Rightarrow>
                  send_message (chat_id message) ''Sorry, an unexpected error occurred.'' [] None w1
              | Inr msgs \<Rightarrow> w1\<lparr>sent := sent w1 @ msgs\<rparr>))"

section \<open>Profile Store: \<^verbatim>\<open>load_user_data\<close>, \<^verbatim>\<open>save_user_data\<close>, \<^verbatim>\<open>save_location\<close>\<close>

text \<open>\<^verbatim>\<open>load_user_data\<close> writes an empty dictionary first when the file does not exist.\<close>

definition load_user_data :: "world \<Rightarrow> json \<times> world" where
  "load_user_data w =
     (case user_data_file w of
        None \<Rightarrow>
          (JObj [],
           w\<lparr>user_data_file := Some (JObj []),
             file_ops := file_ops w @ [Exists, Write (JObj []), Read]\<rparr>)
      | Some d \<Rightarrow> (d, w\<lparr>file_ops := file_ops w @ [Exists, Read]\<rparr>))"

definition save_user_data :: "json \<Rightarrow> world \<Rightarrow> world" where
  "save_user_data d w = w\<lparr>user_data_file := Some d, file_ops := file_ops w @ [Write d]\<rparr>"

text \<open>The profile that lines 176 to 183 and 186 to 193 of \<^verbatim>\<open>save_location\<close> create.\<close>

definition default_profile :: json where
  "default_profile =
     JObj [(''locations'', JArr []),
           (''preferences'',
              JObj [(''alert_frequency'', JStr ''daily''),
                    (''temperature_unit'', JStr ''celsius'')]),
           (''alerts_enabled'', JBool True)]"

text \<open>
  Lines 174 to 193: a user absent from the data gets the default profile; a user
  whose value is not a dictionary gets it too; any other value is kept.
\<close>

definition ensure_profile :: "json \<Rightarrow> string \<Rightarrow> py_error + json" where
  "ensure_profile user_data user_id =
     (case py_contains user_data user_id of
        Inl e \<Rightarrow> Inl e
      | Inr False \<Rightarrow> py_setitem user_data user_id default_profile
      | Inr True \<Rightarrow>
          (case py_getitem user_data user_id of
             Inl e \<Rightarrow> Inl e
           | Inr v \<Rightarrow>
               if \<not> is_dict v then py_setitem user_data user_id default_profile
               else Inr user_data))"

text \<open>
  Lines 196 to 207, up to the messages: the location is looked for in
  \<^verbatim>\<open>user_data[user_id]["locations"]\<close> and appended when it is not there. The list is
  changed in place, so the data afterwards are the data with that one list changed.
  The result is \<open>AlreadyPresent\<close>, or \<open>Added\<close> with the new data and the new list.
\<close>

datatype save_outcome = Added json json | AlreadyPresent

definition add_location :: "json \<Rightarrow> string \<Rightarrow> string \<Rightarrow> py_error + save_outcome" where
  "add_location user_data user_id location =
     (case py_getitem user_data user_id of
        Inl e \<Rightarrow> Inl e
      | Inr profile \<Rightarrow>
          (case py_getitem profile ''locations'' of
             Inl e \<Rightarrow> Inl e
           | Inr locations \<Rightarrow>
               (case py_contains locations location of
                  Inl e \<Rightarrow> Inl e
                | Inr True \<Rightarrow> Inr AlreadyPresent
                | Inr False \<Rightarrow>
                    (case py_append locations (JStr location) of
                       Inl e \<Rightarrow> Inl e
                     | Inr locations' \<Rightarrow>
                         (case py_setitem profile ''locations'' locations' of
                            Inl e \<Rightarrow> Inl e
                          | Inr profile' \<Rightarrow>
                              (case py_setitem user_data user_id profile' of
                                 Inl e \<Rightarrow> Inl e
                               | Inr user_data' \<Rightarrow> Inr (Added user_data' locations')))))))"

text \<open>The elements of a list value, for the loop of line 204.\<close>

fun elements :: "json \<Rightarrow> json list" where
  "elements (JArr xs) = xs"
| "elements v = []"

definition retry_prompt :: "int \<Rightarrow> out_message" where
  "retry_prompt c =
     \<lparr>to_chat = c,
      body = ''This location could not be found. Would you like to try again?'',
      buttons = [[(''Yes'', ''try_again_yes''), (''No'', ''try_again_no'')]],
      parse_mode = None\<rparr>"

definition saved_text :: "'f env \<Rightarrow> json \<Rightarrow> string" where
  "saved_text env locations =
     ''Location verified and saved successfully!'' @ newline @ ''Your saved locations:'' @ newline
       @ join newline (map (\<lambda>loc. pin @ '' '' @ format_value env loc) (elements locations))"

definition duplicate_text :: "string \<Rightarrow> string" where
  "duplicate_text location =
     ''Location '' @ apostrophe @ location @ apostrophe @ '' is already in your saved locations.''"

definition error_text :: string where
  "error_text = ''Sorry, there was an error saving your location.''"

text \<open>
  \<^verbatim>\<open>save_location\<close>. The location kept is \<^verbatim>\<open>message.text.strip()\<close>; the geocoder is
  given the message. The file is loaded only once the location is resolved, and
  written only when a location was appended. Every exception ends in the generic
  message.
\<close>

definition save_location :: "'f env \<Rightarrow> message \<Rightarrow> world \<Rightarrow> world" where
  "save_location env message w =
     (let location = strip (msg_text message);
          (location_result, w1) = location_handler env (Inr message) w
      in case location_result of
           None \<Rightarrow> w1\<lparr>sent := sent w1 @ [retry_prompt (chat_id message)]\<rparr>
         | Some coordinates \<Rightarrow>
             (let (user_data, w2) = load_user_data w1;
                  user_id = str_of_int (chat_id message)
              in case ensure_profile user_data user_id of
                   Inl e \<Rightarrow> send_message (chat_id message) error_text [] None w2
                 | Inr user_data1 \<Rightarrow>
                     (case add_location user_data1 user_id location of
                        Inl e \<Rightarrow> send_message (chat_id message) error_text [] None w2
                      | Inr AlreadyPresent \<Rightarrow>
                          send_message (chat_id message) (duplicate_text location) [] None w2
                      | Inr (Added user_data2 locations) \<Rightarrow>
                          send_message (chat_id message) (saved_text env locations) [] None
                            (save_user_data user_data2 w2))))"

section \<open>Session State Machine: the handlers\<close>

definition send_welcome :: "message \<Rightarrow> world \<Rightarrow> world" where
  "send_welcome message w =
     send_message (chat_id message)
       (''Hi there! I'' @ apostrophe @ ''m your personal weather assistant, here to help you stay prepared for anything Mother Nature throws your way! Would you like to start using this bot?'')
       [[(''Yes'', ''start_yes''), (''No'', ''start_no'')]] None w"

definition handle_start_yes :: "callback_query \<Rightarrow> world \<Rightarrow> world" where
  "handle_start_yes call w =
     answer_callback_query (call_id call)
       (send_message (call_chat_id call) ''What would you like to do next?''
          [[(''Get Weather'', ''get_weather''), (''Set Location'', ''set_location'')],
           [(''Weather Alerts'', ''weather_alerts'')]] None
          (send_message (call_chat_id call)
             (''Great! Let'' @ apostrophe @ ''s get started. '' @ smile) [] None w))"

definition handle_start_no :: "callback_query \<Rightarrow> world \<Rightarrow> world" where
  "handle_start_no call w =
     answer_callback_query (call_id call)
       (send_message (call_chat_id call)
          (''Alright! If you change your mind, just type /start to begin. '' @ smile) [] None w)"

definition handle_get_weather :: "callback_query \<Rightarrow> world \<Rightarrow> world" where
  "handle_get_weather call w =
     answer_callback_query (call_id call)
       (send_message (call_chat_id call) ''Please enter a location to get the weather:'' [] None
          (w\<lparr>user_states := (user_states w)(call_chat_id call \<mapsto> waiting_for_weather_location)\<rparr>))"

definition handle_set_location :: "callback_query \<Rightarrow> world \<Rightarrow> world" where
  "handle_set_location call w =
     answer_callback_query (call_id call)
       (send_message (call_chat_id call)
          (''Please enter the location you'' @ apostrophe @ ''d like to save for updates:'') [] None
          (w\<lparr>user_states := (user_states w)(call_chat_id call \<mapsto> waiting_for_save_location)\<rparr>))"

definition handle_weather_alerts :: "callback_query \<Rightarrow> world \<Rightarrow> world" where
  "handle_weather_alerts call w =
     answer_callback_query (call_id call)
       (send_message (call_chat_id call) ''Weather alerts feature is under development!'' [] None w)"

definition handle_try_again_yes :: "callback_query \<Rightarrow> world \<Rightarrow> world" where
  "handle_try_again_yes call w =
     answer_callback_query (call_id call)
       (send_message (call_chat_id call)
          (''Please enter the location you'' @ apostrophe @ ''d like to save for updates:'') [] None
          (w\<lparr>user_states := (user_states w)(call_chat_id call \<mapsto> waiting_for_save_location)\<rparr>))"

definition handle_try_again_no :: "callback_query \<Rightarrow> world \<Rightarrow> world" where
  "handle_try_again_no call w =
     answer_callback_query (call_id call)
       (send_message (call_chat_id call)
          (''Okay, the location wasn'' @ apostrophe @ ''t saved. If you'' @ apostrophe
             @ ''d like to try again, just type a location.'') [] None w)"

text \<open>
  \<^verbatim>\<open>handle_all_messages\<close>: the state is read with \<^verbatim>\<open>user_states.get\<close> and removed with
  \<^verbatim>\<open>user_states.pop(message.chat.id, None)\<close> after either pipeline.
\<close>

definition handle_all_messages :: "'f env \<Rightarrow> message \<Rightarrow> world \<Rightarrow> world" where
  "handle_all_messages env message w =
     (let current_state = user_states w (chat_id message)
      in if current_state = Some waiting_for_weather_location then
           (let w1 = fetch_weather env message w
            in w1\<lparr>user_states := (user_states w1)(chat_id message := None)\<rparr>)
         else if current_state = Some waiting_for_save_location then
           (let w1 = save_location env message w
            in w1\<lparr>user_states := (user_states w1)(chat_id message := None)\<rparr>)
         else
           send_message (chat_id message)
             ''Please use the menu options. Type /start to see available commands.'' [] None w)"

text \<open>
  The inbound events and their routing by the decorators: the command \<^verbatim>\<open>/start\<close> goes
  to \<^verbatim>\<open>send_welcome\<close>, any other text to \<^verbatim>\<open>handle_all_messages\<close>, a button press to the
  handler whose token equals \<^verbatim>\<open>call.data\<close>; a press with another token has no handler.
\<close>

datatype event = StartCommand message | FreeText message | ButtonPress callback_query

definition dispatch :: "'f env \<Rightarrow> event \<Rightarrow> world \<Rightarrow> world" where
  "dispatch env ev w =
     (case ev of
        StartCommand m \<Rightarrow> send_welcome m w
      | FreeText m \<Rightarrow> handle_all_messages env m w
      | ButtonPress call \<Rightarrow>
          if call_data call = ''start_yes'' then handle_start_yes call w
          else if call_data call = ''start_no'' then handle_start_no call w
          else if call_data call = ''get_weather'' then handle_get_weather call w
          else if call_data call = ''set_location'' then handle_set_location call w
          else if call_data call = ''weather_alerts'' then handle_weather_alerts call w
          else if call_data call = ''try_again_yes'' then handle_try_again_yes call w
          else if call_data call = ''try_again_no'' then handle_try_again_no call w
          else w)"



text \<open>The state at start: no session, no message, nothing logged; the file as found.\<close>

definition initial_world :: "json option \<Rightarrow> world" where
  "initial_world f =
     \<lparr>user_states = Map.empty, user_data_file = f, file_ops = [], geocoder_queries = [],
      sent = [], answered = []\<rparr>"

section \<open>Observations on the store\<close>

text \<open>What \<^verbatim>\<open>load_user_data\<close> returns: the content of the file, an empty dictionary for no file.\<close>

definition loaded :: "world \<Rightarrow> json" where
  "loaded w = (case user_data_file w of None \<Rightarrow> JObj [] | Some d \<Rightarrow> d)"

text \<open>The accesses to the file that one call of \<^verbatim>\<open>load_user_data\<close> makes.\<close>

definition load_ops :: "world \<Rightarrow> file_op list" where
  "load_ops w =
     (case user_data_file w of None \<Rightarrow> [Exists, Write (JObj []), Read] | Some d \<Rightarrow> [Exists, Read])"

text \<open>
  The record the file holds for a user, and the locations of a record: the elements of
  its list \<^verbatim>\<open>"locations"\<close>, none when the record has no such list.
\<close>

definition stored_profile :: "json option \<Rightarrow> string \<Rightarrow> json option" where
  "stored_profile f u = (case f of Some (JObj kvs) \<Rightarrow> map_of kvs u | _ \<Rightarrow> None)"



text \<open>
  The stores in which a location can be added for a user: no file, or a dictionary in
  which the user is absent, or has a value that is not a dictionary, or has a
  dictionary whose \<^verbatim>\<open>"locations"\<close> is a list without that location.
\<close>

definition not_yet_saved :: "json option \<Rightarrow> string \<Rightarrow> string \<Rightarrow> bool" where
  "not_yet_saved f u l =
     (case f of
        None \<Rightarrow> True
      | Some (JObj kvs) \<Rightarrow>
          (case map_of kvs u of
             None \<Rightarrow> True
           | Some (JObj p) \<Rightarrow>
               (case map_of p ''locations'' of
                  Some (JArr ls) \<Rightarrow> JStr l \<notin> set ls
                | _ \<Rightarrow> False)
           | Some v \<Rightarrow> True)
      | Some d \<Rightarrow> False)"


section \<open>A concrete scenario\<close>

text \<open>
  A geocoder that knows Paris, fails on Oslo and finds nothing else; a provider that
  answers with one forecast entry.
\<close>

definition demo_forecast :: json where
  "demo_forecast =
     JObj [(''cod'', JStr ''200''),
           (''list'',
              JArr [JObj [(''main'', JObj [(''temp'', JNum (43 / 2))]),
                          (''weather'', JArr [JObj [(''description'', JStr ''clear sky'')]])],
                    JObj [(''main'', JObj [(''temp'', JNum 19)]),
                          (''weather'', JArr [JObj [(''description'', JStr ''light rain'')]])]])]"

definition demo_env :: "rat env" where
  "demo_env =
     \<lparr>geocode =
        (\<lambda>s. if strip s = ''Paris''
             then Located ''Paris, Ile-de-France, France'' (4885889 / 100000) (232002 / 100000)
             else if s = ''Oslo'' then GeocoderRaised else NoMatch),
      round2 = (\<lambda>x. of_int \<lfloor>x * 100 + 1 / 2\<rfloor> / 100),
      forecast = (\<lambda>latitude longitude. Body demo_forecast),
      format_other = (\<lambda>v. if v = JNum (43 / 2) then ''21.5'' else ''?'')\<rparr>"

definition demo_message :: "string \<Rightarrow> message" where
  "demo_message t = \<lparr>chat_id = 7, msg_text = t\<rparr>"

definition demo_press :: "string \<Rightarrow> callback_query" where
  "demo_press token = \<lparr>call_id = ''q1'', call_chat_id = 7, call_data = token\<rparr>"

text \<open>
  Stores for the scenario: a profile with Paris, a record of the wrong shape, a record
  that is a string.
\<close>

definition paris_store :: json where
  "paris_store =
     JObj [(''7'',
        JObj [(''locations'', JArr [JStr ''Paris'']),
              (''preferences'',
                 JObj [(''alert_frequency'', JStr ''daily''),
                       (''temperature_unit'', JStr ''celsius'')]),
              (''alerts_enabled'', JBool True)])]"



section \<open>Auxiliary facts\<close>


lemmas str_of_int_defs = str_of_int_def digits_of_nat.simps digit_char_def

lemma loaded_queries [simp]: "loaded (w\<lparr>geocoder_queries := q\<rparr>) = loaded w"
  by (simp add: loaded_def)

lemma load_ops_queries [simp]: "load_ops (w\<lparr>geocoder_queries := q\<rparr>) = load_ops w"
  by (simp add: load_ops_def)

lemma load_user_data_eq:
  "load_user_data w =
     (loaded w, w\<lparr>user_data_file := Some (loaded w), file_ops := file_ops w @ load_ops w\<rparr>)"
  by (cases "user_data_file w") (simp_all add: load_user_data_def loaded_def load_ops_def)

lemma location_handler_eq:
  "location_handler env a w =
     (case geocode env (location_text a) of
        Located address latitude longitude \<Rightarrow> Some (round2 env latitude, round2 env longitude)
      | NoMatch \<Rightarrow> None
      | GeocoderRaised \<Rightarrow> None,
      w\<lparr>geocoder_queries := geocoder_queries w @ [location_text a]\<rparr>)"
  by (simp add: location_handler_def Let_def split: geocode_result.split)

lemma save_location_unresolved:
  assumes "geocode env (msg_text m) = NoMatch \<or> geocode env (msg_text m) = GeocoderRaised"
  shows "save_location env m w =
           w\<lparr>geocoder_queries := geocoder_queries w @ [msg_text m],
             sent := sent w @ [retry_prompt (chat_id m)]\<rparr>"
  using assms
  by (auto simp: save_location_def location_handler_eq location_text_def Let_def)

lemma save_location_added:
  assumes "geocode env (msg_text m) = Located a lat lon"
    and "ensure_profile (loaded w) (str_of_int (chat_id m)) = Inr ud1"
    and "add_location ud1 (str_of_int (chat_id m)) (strip (msg_text m)) = Inr (Added ud2 locs)"
  shows "save_location env m w =
           w\<lparr>user_data_file := Some ud2,
             file_ops := file_ops w @ load_ops w @ [Write ud2],
             geocoder_queries := geocoder_queries w @ [msg_text m],
             sent := sent w @ [plain (chat_id m) (saved_text env locs)]\<rparr>"
  using assms
  by (simp add: save_location_def location_handler_eq location_text_def Let_def
      load_user_data_eq send_message_def save_user_data_def plain_def)



lemma ensure_profile_absent:
  "map_of kvs u = None \<Longrightarrow>
     ensure_profile (JObj kvs) u = Inr (JObj (AList.update u default_profile kvs))"
  by (simp add: ensure_profile_def)

lemma ensure_profile_not_dict:
  "map_of kvs u = Some v \<Longrightarrow> \<not> is_dict v \<Longrightarrow>
     ensure_profile (JObj kvs) u = Inr (JObj (AList.update u default_profile kvs))"
  by (simp add: ensure_profile_def)

lemma ensure_profile_dict:
  "map_of kvs u = Some (JObj p) \<Longrightarrow> ensure_profile (JObj kvs) u = Inr (JObj kvs)"
  by (simp add: ensure_profile_def)

lemma add_location_list:
  assumes "map_of kvs u = Some (JObj p)" and "map_of p ''locations'' = Some (JArr ls)"
  shows "add_location (JObj kvs) u l =
           (if JStr l \<in> set ls then Inr AlreadyPresent
            else Inr (Added
                   (JObj (AList.update u
                      (JObj (AList.update ''locations'' (JArr (ls @ [JStr l])) p)) kvs))
                   (JArr (ls @ [JStr l]))))"
  using assms by (simp add: add_location_def)







lemma not_yet_saved_added:
  assumes "not_yet_saved (user_data_file w) u l"
  shows "\<exists>ud1 ud2 locs. ensure_profile (loaded w) u = Inr ud1 \<and> add_location ud1 u l = Inr (Added ud2 locs)"
proof (cases "user_data_file w")
  case None
  then show ?thesis
    by (simp add: loaded_def ensure_profile_def add_location_def default_profile_def)
next
  case (Some d)
  with assms obtain kvs where d: "d = JObj kvs"
    by (cases d) (auto simp: not_yet_saved_def)
  show ?thesis
  proof (cases "map_of kvs u")
    case None
    with Some d show ?thesis
      by (simp add: loaded_def ensure_profile_def add_location_def default_profile_def update_conv')
  next
    case (Some v)
    note v = Some
    show ?thesis
    proof (cases "is_dict v")
      case False
      with v \<open>user_data_file w = Some d\<close> d show ?thesis
        by (simp add: loaded_def ensure_profile_def add_location_def default_profile_def update_conv')
    next
      case True
      then obtain p where p: "v = JObj p" by (cases v) auto
      from assms \<open>user_data_file w = Some d\<close> d v p obtain ls
        where ls: "map_of p ''locations'' = Some (JArr ls)" and notin: "JStr l \<notin> set ls"
        by (auto simp: not_yet_saved_def split: option.splits json.splits)
      from v p have e: "ensure_profile (JObj kvs) u = Inr (JObj kvs)"
        by (simp add: ensure_profile_dict)
      from add_location_list [of kvs u p ls l] v p ls notin e \<open>user_data_file w = Some d\<close> d
      show ?thesis by (simp add: loaded_def)
    qed
  qed
qed


lemmas demo_defs = demo_env_def demo_message_def initial_world_def strip_def is_space_def
  str_of_int_defs






lemma save_with_new_profile:
  assumes resolved: "geocode env (msg_text m) = Located address latitude longitude"
    and l: "loaded w = JObj kvs"
    and nd: "map_of kvs (str_of_int (chat_id m)) = None
             \<or> (\<exists>v. map_of kvs (str_of_int (chat_id m)) = Some v \<and> \<not> is_dict v)"
  shows "ensure_profile (loaded w) (str_of_int (chat_id m))
           = Inr (JObj (AList.update (str_of_int (chat_id m)) default_profile kvs))
         \<and> stored_profile (user_data_file (save_location env m w)) (str_of_int (chat_id m))
           = Some (JObj [(''locations'', JArr [JStr (strip (msg_text m))]),
                         (''preferences'',
                            JObj [(''alert_frequency'', JStr ''daily''),
                                  (''temperature_unit'', JStr ''celsius'')]),
                         (''alerts_enabled'', JBool True)])
         \<and> sent (save_location env m w)
           = sent w @ [plain (chat_id m) (saved_text env (JArr [JStr (strip (msg_text m))]))]"
proof -
  let ?u = "str_of_int (chat_id m)" and ?l = "strip (msg_text m)"
  let ?kvs1 = "AList.update ?u default_profile kvs"
  from nd l have e: "ensure_profile (loaded w) ?u = Inr (JObj ?kvs1)"
    by (auto simp: ensure_profile_absent ensure_profile_not_dict)
  let ?ud2 = "JObj (AList.update ?u
      (JObj [(''locations'', JArr [JStr ?l]),
             (''preferences'',
                JObj [(''alert_frequency'', JStr ''daily''),
                      (''temperature_unit'', JStr ''celsius'')]),
             (''alerts_enabled'', JBool True)]) ?kvs1)"
  have a: "add_location (JObj ?kvs1) ?u ?l = Inr (Added ?ud2 (JArr [JStr ?l]))"
    by (simp add: add_location_def update_conv' default_profile_def)
  from save_location_added [OF resolved e a] show ?thesis
    by (simp add: e stored_profile_def update_conv')
qed


lemma loaded_None: "user_data_file w = None \<Longrightarrow> loaded w = JObj []"
  by (simp add: loaded_def)

lemmas handler_defs = send_welcome_def handle_start_yes_def handle_start_no_def
  handle_get_weather_def handle_set_location_def handle_weather_alerts_def
  handle_try_again_yes_def handle_try_again_no_def send_message_def answer_callback_query_def







lemma waiting_distinct: "waiting_for_weather_location \<noteq> waiting_for_save_location"
  by (simp add: waiting_for_weather_location_def waiting_for_save_location_def)




lemma location_handler_None:
  "fst (location_handler env (Inr m) w) = None \<longleftrightarrow>
     geocode env (msg_text m) = NoMatch \<or> geocode env (msg_text m) = GeocoderRaised"
  by (simp add: location_handler_eq location_text_def split: geocode_result.split)






section \<open>Location Resolver: results\<close>



section \<open>Profile Store: saving a location\<close>




text \<open>
  C5. For every user with no stored profile (no file, or a dictionary without the
  user), a call of \<^verbatim>\<open>save_location\<close> on a resolved location first gives the user the
  profile with no locations, the preferences \<^verbatim>\<open>alert_frequency: daily\<close> and
  \<^verbatim>\<open>temperature_unit: celsius\<close>, and \<^verbatim>\<open>alerts_enabled: true\<close>; the membership check and the
  append then work on that profile, and the file written holds it with the one location.
\<close>

theorem first_save_creates_default_profile:
  assumes resolved: "geocode env (msg_text m) = Located address latitude longitude"
    and no_profile: "user_data_file w = None
       \<or> (\<exists>kvs. user_data_file w = Some (JObj kvs) \<and> map_of kvs (str_of_int (chat_id m)) = None)"
  shows "(\<exists>user_data1. ensure_profile (loaded w) (str_of_int (chat_id m)) = Inr user_data1
            \<and> py_getitem user_data1 (str_of_int (chat_id m)) =
                Inr (JObj [(''locations'', JArr []),
                           (''preferences'',
                              JObj [(''alert_frequency'', JStr ''daily''),
                                    (''temperature_unit'', JStr ''celsius'')]),
                           (''alerts_enabled'', JBool True)])
            \<and> (\<exists>user_data2 locations.
                  add_location user_data1 (str_of_int (chat_id m)) (strip (msg_text m))
                    = Inr (Added user_data2 locations)
                  \<and> user_data_file (save_location env m w) = Some user_data2))
         \<and> stored_profile (user_data_file (save_location env m w)) (str_of_int (chat_id m))
           = Some (JObj [(''locations'', JArr [JStr (strip (msg_text m))]),
                         (''preferences'',
                            JObj [(''alert_frequency'', JStr ''daily''),
                                  (''temperature_unit'', JStr ''celsius'')]),
                         (''alerts_enabled'', JBool True)])
         \<and> sent (save_location env m w)
           = sent w @ [plain (chat_id m) (saved_text env (JArr [JStr (strip (msg_text m))]))]"
proof -
  let ?u = "str_of_int (chat_id m)" and ?l = "strip (msg_text m)"
  from no_profile obtain kvs where l: "loaded w = JObj kvs" and n: "map_of kvs ?u = None"
    by (auto simp: loaded_def)
  from n have nd: "map_of kvs ?u = None \<or> (\<exists>v. map_of kvs ?u = Some v \<and> \<not> is_dict v)" ..
  note new = save_with_new_profile [OF resolved l nd]
  from new have e: "ensure_profile (loaded w) ?u = Inr (JObj (AList.update ?u default_profile kvs))"
    by simp
  have g: "py_getitem (JObj (AList.update ?u default_profile kvs)) ?u = Inr default_profile"
    by (simp add: update_conv')
  have "not_yet_saved (user_data_file w) ?u ?l"
    using no_profile n by (auto simp: not_yet_saved_def)
  from not_yet_saved_added [OF this] e obtain ud2 locs where
    a: "add_location (JObj (AList.update ?u default_profile kvs)) ?u ?l = Inr (Added ud2 locs)"
    by auto
  have f: "user_data_file (save_location env m w) = Some ud2"
    by (simp add: save_location_added [OF resolved e a])
  from e g a f have "\<exists>user_data1. ensure_profile (loaded w) ?u = Inr user_data1
            \<and> py_getitem user_data1 ?u = Inr default_profile
            \<and> (\<exists>user_data2 locations.
                  add_location user_data1 ?u ?l = Inr (Added user_data2 locations)
                  \<and> user_data_file (save_location env m w) = Some user_data2)"
    by blast
  with new show ?thesis
    by (simp add: default_profile_def)
qed

theorem first_save_creates_default_profile_witness:
  "geocode demo_env (msg_text (demo_message ''Paris'')) =
      Located ''Paris, Ile-de-France, France'' (4885889 / 100000) (232002 / 100000)
   \<and> user_data_file (initial_world None) = None
   \<and> stored_profile
        (user_data_file (save_location demo_env (demo_message ''Paris'') (initial_world None))) ''7''
       = Some (JObj [(''locations'', JArr [JStr ''Paris'']),
                     (''preferences'',
                        JObj [(''alert_frequency'', JStr ''daily''),
                              (''temperature_unit'', JStr ''celsius'')]),
                     (''alerts_enabled'', JBool True)])"
proof -
  have h1: "geocode demo_env (msg_text (demo_message ''Paris'')) =
      Located ''Paris, Ile-de-France, France'' (4885889 / 100000) (232002 / 100000)"
    by (simp add: demo_defs)
  have h2: "user_data_file (initial_world None) = None"
    by (simp add: initial_world_def)
  then have h2': "user_data_file (initial_world None) = None
       \<or> (\<exists>kvs. user_data_file (initial_world None) = Some (JObj kvs)
             \<and> map_of kvs (str_of_int (chat_id (demo_message ''Paris''))) = None)" ..
  have u: "str_of_int (chat_id (demo_message ''Paris'')) = ''7''"
    by (simp add: demo_defs)
  have l: "strip (msg_text (demo_message ''Paris'')) = ''Paris''"
    by (simp add: demo_defs)
  from first_save_creates_default_profile [OF h1 h2'] h1 h2 show ?thesis
    by (simp add: u l)
qed






section \<open>Session State Machine: the steps of a session\<close>


section \<open>Session State Machine: a location that is not found\<close>

text \<open>
  C4. For every text handled while the chat waits for a location to save and which the
  Resolver does not resolve, the file is the same afterwards and no access to it is
  made; the retry prompt with the buttons Yes and No is sent, and the chat is idle. A
  press of "No" after that leaves the file the same again, with no access to it.
\<close>

theorem not_found_leaves_store_untouched:
  assumes waiting: "user_states w (chat_id m) = Some waiting_for_save_location"
    and not_found: "fst (location_handler env (Inr m) w) = None"
  shows "let w1 = dispatch env (FreeText m) w;
             w2 = dispatch env' (ButtonPress (call\<lparr>call_data := ''try_again_no''\<rparr>)) w1
         in user_data_file w1 = user_data_file w
            \<and> file_ops w1 = file_ops w
            \<and> sent w1 = sent w @
                 [\<lparr>to_chat = chat_id m,
                   body = ''This location could not be found. Would you like to try again?'',
                   buttons = [[(''Yes'', ''try_again_yes''), (''No'', ''try_again_no'')]],
                   parse_mode = None\<rparr>]
            \<and> user_states w1 (chat_id m) = None
            \<and> user_data_file w2 = user_data_file w
            \<and> file_ops w2 = file_ops w
            \<and> user_states w2 = user_states w1"
proof -
  from not_found have g: "geocode env (msg_text m) = NoMatch \<or> geocode env (msg_text m) = GeocoderRaised"
    by (simp add: location_handler_None)
  have w1: "dispatch env (FreeText m) w =
      w\<lparr>geocoder_queries := geocoder_queries w @ [msg_text m],
        sent := sent w @ [retry_prompt (chat_id m)],
        user_states := (user_states w)(chat_id m := None)\<rparr>"
    using waiting waiting_distinct
    by (simp add: dispatch_def handle_all_messages_def Let_def save_location_unresolved [OF g])
  show ?thesis
    unfolding Let_def w1
    by (simp add: dispatch_def handler_defs retry_prompt_def)
qed

theorem not_found_leaves_store_untouched_witness:
  "user_states ((initial_world (Some paris_store))\<lparr>user_states := [7 \<mapsto> waiting_for_save_location]\<rparr>)
      (chat_id (demo_message ''Atlantis'')) = Some waiting_for_save_location
   \<and> fst (location_handler demo_env (Inr (demo_message ''Atlantis''))
        ((initial_world (Some paris_store))\<lparr>user_states := [7 \<mapsto> waiting_for_save_location]\<rparr>)) = None
   \<and> user_data_file
        (dispatch demo_env (ButtonPress (demo_press ''try_again_no''))
           (dispatch demo_env (FreeText (demo_message ''Atlantis''))
              ((initial_world (Some paris_store))\<lparr>user_states := [7 \<mapsto> waiting_for_save_location]\<rparr>)))
       = Some paris_store
   \<and> file_ops
        (dispatch demo_env (ButtonPress (demo_press ''try_again_no''))
           (dispatch demo_env (FreeText (demo_message ''Atlantis''))
              ((initial_world (Some paris_store))\<lparr>user_states := [7 \<mapsto> waiting_for_save_location]\<rparr>)))
       = []"
proof -
  let ?w = "(initial_world (Some paris_store))\<lparr>user_states := [7 \<mapsto> waiting_for_save_location]\<rparr>"
  have h1: "user_states ?w (chat_id (demo_message ''Atlantis'')) = Some waiting_for_save_location"
    by (simp add: demo_message_def)
  have h2: "fst (location_handler demo_env (Inr (demo_message ''Atlantis'')) ?w) = None"
    by (simp add: location_handler_eq location_text_def demo_defs)
  have p: "demo_press ''try_again_no'' = (demo_press ''try_again_no'')\<lparr>call_data := ''try_again_no''\<rparr>"
    by (simp add: demo_press_def)
  have f: "user_data_file ?w = Some paris_store" "file_ops ?w = []"
    by (simp_all add: initial_world_def)
  note t = not_found_leaves_store_untouched [OF h1 h2, of demo_env "demo_press ''try_again_no''",
      unfolded Let_def, folded p]
  from t f have a: "user_data_file
        (dispatch demo_env (ButtonPress (demo_press ''try_again_no''))
           (dispatch demo_env (FreeText (demo_message ''Atlantis'')) ?w)) = Some paris_store"
    by simp
  from t f have b: "file_ops
        (dispatch demo_env (ButtonPress (demo_press ''try_again_no''))
           (dispatch demo_env (FreeText (demo_message ''Atlantis'')) ?w)) = []"
    by simp
  from h1 h2 a b show ?thesis by blast
qed



section \<open>Weather Fetcher: reading the forecast\<close>



end
